theory Spec2Isabelle
  imports Complex_Main "HOL-Library.Sublist"
begin

section \<open>Strings as the script sees them\<close>

text \<open>
  A JavaScript string is modelled as a \<^typ>\<open>string\<close>: a list of 8-bit characters,
  read as the code units U+0000 .. U+00FF. Replies and move strings whose code
  units lie in that range are covered; the legal moves of the rules engine are
  ASCII.
\<close>

text \<open>\<^verbatim>\<open>String.prototype.trim\<close>: the white space and line terminator code units below
  U+0100 are TAB, LF, VT, FF, CR, SPACE and NBSP.\<close>

definition is_ws :: "char \<Rightarrow> bool" where
  "is_ws c = (c \<in> set [CHR 0x09, CHR 0x0A, CHR 0x0B, CHR 0x0C, CHR 0x0D, CHR 0x20, CHR 0xA0])"

definition trim :: "string \<Rightarrow> string" where
  "trim s = rev (dropWhile is_ws (rev (dropWhile is_ws s)))"

text \<open>\<^verbatim>\<open>String.prototype.toLowerCase\<close> on code units below U+0100: the letters A-Z and
  the Latin-1 capitals U+00C0 .. U+00DE (without the multiplication sign U+00D7) move up
  by 32, every other unit stays.\<close>

definition lower_char :: "char \<Rightarrow> char" where
  "lower_char c = (let n = (of_char c :: nat) in
     if (65 \<le> n \<and> n \<le> 90) \<or> (192 \<le> n \<and> n \<le> 222 \<and> n \<noteq> 215)
     then char_of (n + 32) else c)"

definition toLowerCase :: "string \<Rightarrow> string" where
  "toLowerCase s = map lower_char s"

text \<open>\<^verbatim>\<open>String.prototype.includes\<close>: the needle occurs at some position of the string.\<close>

fun includes_str :: "string \<Rightarrow> string \<Rightarrow> bool" where
  "includes_str [] t = (t = [])"
| "includes_str (c # s) t = (prefix t (c # s) \<or> includes_str s t)"

text \<open>\<^verbatim>\<open>String.prototype.split\<close> with a separator of one character.\<close>

fun split :: "char \<Rightarrow> string \<Rightarrow> string list" where
  "split sep [] = [[]]"
| "split sep (c # s) =
     (if c = sep then [] # split sep s
      else (case split sep s of [] \<Rightarrow> [[c]] | h # t \<Rightarrow> (c # h) # t))"

section \<open>Regular expressions\<close>

text \<open>
  The fragment of ECMAScript regular expressions that \<^verbatim>\<open>parseMove\<close> uses: character
  classes (a literal character is a class of one), concatenation, alternation, the
  greedy optional \<^verbatim>\<open>?\<close> and the two anchors. Capture groups do not change the text
  of the whole match and are not modelled.
\<close>

datatype rx = Eps | Cls string | Seq rx rx | Alt rx rx | Opt rx | Bol | Eol

text \<open>
  The backtracking matcher. A state is the number of characters consumed so far in the
  input and the rest of the input. \<open>rx_run r st\<close> lists the states in which a match of
  \<open>r\<close> started in \<open>st\<close> can end, in the order in which the backtracking engine tries
  them: the left alternative before the right one, the optional part taken before it is
  skipped.
\<close>

fun rx_run :: "rx \<Rightarrow> nat \<times> string \<Rightarrow> (nat \<times> string) list" where
  "rx_run Eps st = [st]"
| "rx_run (Cls cs) (i, s) =
     (case s of [] \<Rightarrow> [] | c # t \<Rightarrow> if c \<in> set cs then [(Suc i, t)] else [])"
| "rx_run (Seq a b) st = concat (map (rx_run b) (rx_run a st))"
| "rx_run (Alt a b) st = rx_run a st @ rx_run b st"
| "rx_run (Opt a) st = rx_run a st @ [st]"
| "rx_run Bol (i, s) = (if i = 0 then [(i, s)] else [])"
| "rx_run Eol (i, s) = (if s = [] then [(i, s)] else [])"

text \<open>
  The search: the start positions are tried from left to right, and the first way in
  which the expression matches at the first position where it matches at all is the
  match. The result is the matched text, element 0 of what \<^verbatim>\<open>String.prototype.match\<close>
  returns (with the flag \<^verbatim>\<open>g\<close>: the first of all matches; without: the whole match),
  \<open>None\<close> for \<^verbatim>\<open>null\<close>.
\<close>

fun rx_search :: "rx \<Rightarrow> nat \<Rightarrow> string \<Rightarrow> string option" where
  "rx_search r i [] = (case rx_run r (i, []) of [] \<Rightarrow> None | (j, t) # _ \<Rightarrow> Some [])"
| "rx_search r i (c # s) =
     (case rx_run r (i, c # s) of
        [] \<Rightarrow> rx_search r (Suc i) s
      | (j, t) # _ \<Rightarrow> Some (take (j - i) (c # s)))"

definition match :: "rx \<Rightarrow> string \<Rightarrow> string option" where
  "match r s = rx_search r 0 s"

fun seqs :: "rx list \<Rightarrow> rx" where
  "seqs [] = Eps"
| "seqs [r] = r"
| "seqs (r # rs) = Seq r (seqs rs)"

definition files :: string where "files = ''abcdefgh''"
definition ranks :: string where "ranks = ''12345678''"

text \<open>\<^verbatim>\<open>/([a-h][1-8]-[a-h][1-8])/g\<close>\<close>

definition regularRx :: rx where
  "regularRx = seqs [Cls files, Cls ranks, Cls ''-'', Cls files, Cls ranks]"

text \<open>\<^verbatim>\<open>/([NBRQK])?([a-h])?([1-8])?(x)?([a-h][1-8])(=[NBRQK])?(\+|#)?$|^O-O(-O)?/\<close>:
  the alternation binds weakest, so the end anchor belongs to the left branch only and
  the start anchor to the right branch only.\<close>

definition pieces :: string where "pieces = ''NBRQK''"

definition sanBody :: rx where
  "sanBody = seqs [Opt (Cls pieces), Opt (Cls files), Opt (Cls ranks), Opt (Cls ''x''),
                   Cls files, Cls ranks, Opt (Seq (Cls ''='') (Cls pieces)),
                   Opt (Alt (Cls ''+'') (Cls ''#''))]"

definition sanRx :: rx where
  "sanRx = Seq sanBody Eol"

definition castleRx :: rx where
  "castleRx = seqs [Bol, Cls ''O'', Cls ''-'', Cls ''O'', Opt (Seq (Cls ''-'') (Cls ''O''))]"

definition notationRx :: rx where
  "notationRx = Alt sanRx castleRx"

section \<open>The move parser\<close>

text \<open>
  What \<^verbatim>\<open>parseMove\<close> returns: an array of strings (the coordinate pair), a string (a
  move in algebraic notation), or \<^verbatim>\<open>null\<close>, which is \<open>None\<close>.
\<close>

datatype parsed = MoveArray "string list" | MoveString string

text \<open>\<^verbatim>\<open>parseMove\<close> is a closure over the list \<^verbatim>\<open>moves\<close> of its enclosing function; the
  list is its first argument here.\<close>

definition parseMove :: "string list \<Rightarrow> string \<Rightarrow> parsed option" where
  "parseMove moves reply0 =
     (let reply = trim reply0 in
      case match regularRx reply of
        Some m \<Rightarrow> Some (MoveArray (split CHR ''-'' m))
      | None \<Rightarrow>
          (case match notationRx reply of
             Some m \<Rightarrow> Some (MoveString m)
           | None \<Rightarrow>
               map_option MoveString
                 (find (\<lambda>move. includes_str (toLowerCase reply) (toLowerCase move)) moves)))"

section \<open>The collaborators\<close>

text \<open>
  The rules engine (chess.js), the board widget and the text generator are not part of
  the script. The rules engine is a parameter: a record of its methods as functions of
  the position \<open>'p\<close>. \<^verbatim>\<open>game.move\<close> takes an object with the fields \<^verbatim>\<open>from\<close> and
  \<^verbatim>\<open>to\<close>, or a string, and throws on a move that is not legal: \<open>None\<close> is the throw,
  and the position is then the one before the call. The board widget and the elements
  that show the status are taken not to throw. The model is sequential: between the call
  of the text generator and its answer nothing else acts on the game.
\<close>

datatype side = W | B

datatype color = White | Black

datatype js_move = FromTo "string option" "string option" | San string | Undefined

record 'p engine =
  turn :: "'p \<Rightarrow> side"
  isGameOver :: "'p \<Rightarrow> bool"
  isCheckmate :: "'p \<Rightarrow> bool"
  inCheck :: "'p \<Rightarrow> bool"
  isStalemate :: "'p \<Rightarrow> bool"
  isDraw :: "'p \<Rightarrow> bool"
  isThreefoldRepetition :: "'p \<Rightarrow> bool"
  fen :: "'p \<Rightarrow> string"
  ascii :: "'p \<Rightarrow> string"
  moves :: "'p \<Rightarrow> string list"
  move :: "'p \<Rightarrow> js_move \<Rightarrow> 'p option"

text \<open>
  The text generator \<^verbatim>\<open>generateRaw(prompt, '', false, false, systemPrompt)\<close> is a
  parameter too: from its own state \<open>'g\<close>, the prompt and the system prompt it gives
  the reply, or \<open>None\<close> when the call throws, and its next state.
\<close>

type_synonym 'g generateRaw = "'g \<Rightarrow> string \<Rightarrow> string \<Rightarrow> string option \<times> 'g"

text \<open>The texts that \<^verbatim>\<open>updateStatus\<close> writes, one constructor for each.\<close>

datatype opponent_status = GameOverPressToClose | Thinking | YourTurn | NoOpponentStatus

datatype user_status =
  CheckmateWins color | IsInCheck color | GameIsStalemate | GameIsDraw
  | GameIsThreefold | NoUserStatus

datatype console_entry = ConsoleError | ConsoleWarn

text \<open>
  An instance of \<^verbatim>\<open>ChessGame\<close> with what its methods act on. \<open>board\<close> is the position the
  widget shows, the last argument of \<^verbatim>\<open>board.position\<close>. The last six fields record
  what was done: the arguments of the calls of \<^verbatim>\<open>generateRaw\<close>, the console output, the
  moves the engine accepted, and the numbers of calls of \<^verbatim>\<open>game.moves\<close>,
  \<^verbatim>\<open>board.position\<close> and \<^verbatim>\<open>updateStatus\<close>.
\<close>

record ('p, 'g) chess_game =
  game :: 'p
  color :: color
  board :: string
  opponentStatusText :: opponent_status
  userStatusText :: user_status
  generator :: 'g
  requests :: "(string \<times> string) list"
  console :: "console_entry list"
  applied :: "js_move list"
  enumerations :: nat
  redraws :: nat
  statusUpdates :: nat

section \<open>The methods of ChessGame\<close>

definition getOpponentColor :: "('p, 'g) chess_game \<Rightarrow> color" where
  "getOpponentColor \<sigma> = (if color \<sigma> = White then Black else White)"

definition isOpponentTurn :: "'p engine \<Rightarrow> ('p, 'g) chess_game \<Rightarrow> bool" where
  "isOpponentTurn E \<sigma> =
     ((turn E (game \<sigma>) = W \<and> color \<sigma> = Black) \<or> (turn E (game \<sigma>) = B \<and> color \<sigma> = White))"

definition isUserTurn :: "'p engine \<Rightarrow> ('p, 'g) chess_game \<Rightarrow> bool" where
  "isUserTurn E \<sigma> =
     ((turn E (game \<sigma>) = W \<and> color \<sigma> = White) \<or> (turn E (game \<sigma>) = B \<and> color \<sigma> = Black))"

definition updateStatus :: "'p engine \<Rightarrow> ('p, 'g) chess_game \<Rightarrow> ('p, 'g) chess_game" where
  "updateStatus E \<sigma> =
     \<sigma>\<lparr>opponentStatusText :=
          (if isGameOver E (game \<sigma>) then GameOverPressToClose
           else if isOpponentTurn E \<sigma> then Thinking
           else if isUserTurn E \<sigma> then YourTurn
           else NoOpponentStatus),
        userStatusText :=
          (if isCheckmate E (game \<sigma>)
             then CheckmateWins (if turn E (game \<sigma>) = W then Black else White)
           else if inCheck E (game \<sigma>)
             then IsInCheck (if turn E (game \<sigma>) = W then White else Black)
           else if isStalemate E (game \<sigma>) then GameIsStalemate
           else if isDraw E (game \<sigma>) then GameIsDraw
           else if isThreefoldRepetition E (game \<sigma>) then GameIsThreefold
           else NoUserStatus),
        statusUpdates := Suc (statusUpdates \<sigma>)\<rparr>"

text \<open>\<^verbatim>\<open>this.board.position(this.game.fen())\<close>\<close>

definition boardPosition :: "'p engine \<Rightarrow> ('p, 'g) chess_game \<Rightarrow> ('p, 'g) chess_game" where
  "boardPosition E \<sigma> = \<sigma>\<lparr>board := fen E (game \<sigma>), redraws := Suc (redraws \<sigma>)\<rparr>"

text \<open>\<^verbatim>\<open>this.game.move(m)\<close>: the new state, or \<open>None\<close> when the engine throws.\<close>

definition gameMove :: "'p engine \<Rightarrow> js_move \<Rightarrow> ('p, 'g) chess_game \<Rightarrow> ('p, 'g) chess_game option" where
  "gameMove E m \<sigma> =
     (case move E (game \<sigma>) m of
        None \<Rightarrow> None
      | Some p \<Rightarrow> Some (\<sigma>\<lparr>game := p, applied := applied \<sigma> @ [m]\<rparr>))"

subsection \<open>The prompts\<close>

text \<open>\<^verbatim>\<open>Array.prototype.join\<close>\<close>

fun join :: "string \<Rightarrow> string list \<Rightarrow> string" where
  "join sep [] = []"
| "join sep [x] = x"
| "join sep (x # xs) = x @ sep @ join sep xs"

text \<open>\<^verbatim>\<open>String.prototype.replace\<close> with a string pattern: the first occurrence only.\<close>

fun replace :: "string \<Rightarrow> string \<Rightarrow> string \<Rightarrow> string" where
  "replace pat rep [] = (if pat = [] then rep else [])"
| "replace pat rep (c # s) =
     (if prefix pat (c # s) then rep @ drop (length pat) (c # s)
      else c # replace pat rep s)"

definition opponentMovePrompt :: string where
  "opponentMovePrompt =
     ''You are a world-renowned chess grandmaster. You are given the representation of a chessboard state using the Forsyth-Edwards Notation (FEN) and ASCII. Select the best possible move from the list in algebraic notation and reply with JUST the move, e.g. '' @ [CHR 0x27] @ ''Nc6'' @ [CHR 0x27] @ ''. You are playing as {{color}}.''"

text \<open>\<^verbatim>\<open>this.getOpponentColor().toUpperCase()\<close>\<close>

definition upperColor :: "color \<Rightarrow> string" where
  "upperColor c = (case c of White \<Rightarrow> ''WHITE'' | Black \<Rightarrow> ''BLACK'')"

definition systemPrompt :: "('p, 'g) chess_game \<Rightarrow> string" where
  "systemPrompt \<sigma> = replace ''{{color}}'' (upperColor (getOpponentColor \<sigma>)) opponentMovePrompt"

definition positionPrompt :: "string \<Rightarrow> string \<Rightarrow> string list \<Rightarrow> string" where
  "positionPrompt fen0 ascii0 moves0 =
     (let movesString = ''Available moves:'' @ [CHR 0x0A] @ join '', '' moves0
      in join [CHR 0x0A, CHR 0x0A] [fen0, ascii0, movesString])"

subsection \<open>One attempt, the retry loop and the fallback\<close>

text \<open>The test \<^verbatim>\<open>!move\<close>: \<^verbatim>\<open>null\<close> and the empty string are falsy, an array never is.\<close>

fun falsy :: "parsed option \<Rightarrow> bool" where
  "falsy None = True"
| "falsy (Some (MoveString s)) = (s = [])"
| "falsy (Some (MoveArray xs)) = False"

text \<open>\<^verbatim>\<open>xs[i]\<close>, \<open>None\<close> for \<^verbatim>\<open>undefined\<close>.\<close>

definition js_nth :: "'a list \<Rightarrow> nat \<Rightarrow> 'a option" where
  "js_nth xs i = (if i < length xs then Some (xs ! i) else None)"

text \<open>The argument of \<^verbatim>\<open>game.move\<close> for a parsed move: \<^verbatim>\<open>{ from: move[0], to: move[1] }\<close>
  for an array, the string itself for a string.\<close>

fun moveArgument :: "parsed \<Rightarrow> js_move" where
  "moveArgument (MoveArray xs) = FromTo (js_nth xs 0) (js_nth xs 1)"
| "moveArgument (MoveString s) = San s"

text \<open>
  The body of the loop. \<open>Moved\<close>: the body reached its \<^verbatim>\<open>return\<close>, which leaves
  \<^verbatim>\<open>tryMoveOpponent\<close>. \<open>Failed\<close>: an exception was thrown in the \<^verbatim>\<open>try\<close> block (by
  \<^verbatim>\<open>generateRaw\<close>, by the \<^verbatim>\<open>throw\<close> after the parse, or by \<^verbatim>\<open>game.move\<close>) and the
  \<^verbatim>\<open>catch\<close> block has written it to the console.
\<close>

datatype 'a outcome = Moved 'a | Failed 'a

definition caught :: "('p, 'g) chess_game \<Rightarrow> ('p, 'g) chess_game outcome" where
  "caught \<sigma> = Failed (\<sigma>\<lparr>console := console \<sigma> @ [ConsoleError]\<rparr>)"

definition attempt ::
  "'p engine \<Rightarrow> 'g generateRaw \<Rightarrow> string \<Rightarrow> string \<Rightarrow> string list \<Rightarrow> string
     \<Rightarrow> ('p, 'g) chess_game \<Rightarrow> ('p, 'g) chess_game outcome" where
  "attempt E G fen0 ascii0 moves0 sys \<sigma> =
     (let prompt = positionPrompt fen0 ascii0 moves0;
          (reply, g) = G (generator \<sigma>) prompt sys;
          \<sigma>1 = \<sigma>\<lparr>generator := g, requests := requests \<sigma> @ [(prompt, sys)]\<rparr>
      in case reply of
           None \<Rightarrow> caught \<sigma>1
         | Some text \<Rightarrow>
             (let parsed = parseMove moves0 text in
              if falsy parsed then caught \<sigma>1
              else (case gameMove E (moveArgument (the parsed)) \<sigma>1 of
                      None \<Rightarrow> caught \<sigma>1
                    | Some \<sigma>2 \<Rightarrow> Moved (updateStatus E (boardPosition E \<sigma>2)))))"

text \<open>\<^verbatim>\<open>for (let i = 0; i < maxRetries; i++)\<close>, by the number of rounds that are left.\<close>

fun attempts ::
  "nat \<Rightarrow> 'p engine \<Rightarrow> 'g generateRaw \<Rightarrow> string \<Rightarrow> string \<Rightarrow> string list \<Rightarrow> string
     \<Rightarrow> ('p, 'g) chess_game \<Rightarrow> ('p, 'g) chess_game outcome" where
  "attempts 0 E G fen0 ascii0 moves0 sys \<sigma> = Failed \<sigma>"
| "attempts (Suc n) E G fen0 ascii0 moves0 sys \<sigma> =
     (case attempt E G fen0 ascii0 moves0 sys \<sigma> of
        Moved \<sigma>' \<Rightarrow> Moved \<sigma>'
      | Failed \<sigma>' \<Rightarrow> attempts n E G fen0 ascii0 moves0 sys \<sigma>')"

definition maxRetries :: nat where
  "maxRetries = 3"

text \<open>\<^verbatim>\<open>Math.floor(Math.random() * moves.length)\<close>, for the number \<open>rnd\<close> that
  \<^verbatim>\<open>Math.random\<close> returns, a real number here.\<close>

definition randomIndex :: "real \<Rightarrow> 'a list \<Rightarrow> nat" where
  "randomIndex rnd xs = nat \<lfloor>rnd * real (length xs)\<rfloor>"

text \<open>
  The exception that leaves \<^verbatim>\<open>tryMoveOpponent\<close> when the engine throws on the random
  move. The result of \<^verbatim>\<open>tryMoveOpponent\<close> is \<open>Inr\<close> of the state it leaves when it
  returns, and \<open>Inl\<close> of the exception and the state it leaves when it throws.
\<close>

datatype error = MoveRejected js_move

type_synonym ('p, 'g) result = "(error \<times> ('p, 'g) chess_game) + ('p, 'g) chess_game"

definition finalState :: "('p, 'g) result \<Rightarrow> ('p, 'g) chess_game" where
  "finalState r = (case r of Inl (e, \<sigma>) \<Rightarrow> \<sigma> | Inr \<sigma> \<Rightarrow> \<sigma>)"

definition randomMove ::
  "'p engine \<Rightarrow> real \<Rightarrow> string list \<Rightarrow> ('p, 'g) chess_game \<Rightarrow> ('p, 'g) result" where
  "randomMove E rnd moves0 \<sigma> =
     (let \<sigma>1 = \<sigma>\<lparr>console := console \<sigma> @ [ConsoleWarn]\<rparr>;
          m = (case js_nth moves0 (randomIndex rnd moves0) of
                 None \<Rightarrow> Undefined | Some s \<Rightarrow> San s)
      in case gameMove E m \<sigma>1 of
           None \<Rightarrow> Inl (MoveRejected m, \<sigma>1)
         | Some \<sigma>2 \<Rightarrow> Inr (updateStatus E (boardPosition E \<sigma>2)))"

definition tryMoveOpponent ::
  "'p engine \<Rightarrow> 'g generateRaw \<Rightarrow> real \<Rightarrow> ('p, 'g) chess_game \<Rightarrow> ('p, 'g) result" where
  "tryMoveOpponent E G rnd \<sigma> =
     (if \<not> isOpponentTurn E \<sigma> then Inr \<sigma>
      else if isGameOver E (game \<sigma>) then Inr \<sigma>
      else
        (let fen0 = fen E (game \<sigma>);
             moves0 = moves E (game \<sigma>);
             ascii0 = ascii E (game \<sigma>);
             \<sigma>0 = \<sigma>\<lparr>enumerations := Suc (enumerations \<sigma>)\<rparr>
         in case attempts maxRetries E G fen0 ascii0 moves0 (systemPrompt \<sigma>) \<sigma>0 of
              Moved \<sigma>' \<Rightarrow> Inr \<sigma>'
            | Failed \<sigma>' \<Rightarrow> randomMove E rnd moves0 \<sigma>'))"

text \<open>The state in which round \<open>k\<close> of the loop starts: the one that \<open>k\<close> failed rounds
  leave, \<open>None\<close> when an earlier round has returned.\<close>

fun afterFailures ::
  "nat \<Rightarrow> 'p engine \<Rightarrow> 'g generateRaw \<Rightarrow> string \<Rightarrow> string \<Rightarrow> string list \<Rightarrow> string
     \<Rightarrow> ('p, 'g) chess_game \<Rightarrow> ('p, 'g) chess_game option" where
  "afterFailures 0 E G fen0 ascii0 moves0 sys \<sigma> = Some \<sigma>"
| "afterFailures (Suc k) E G fen0 ascii0 moves0 sys \<sigma> =
     (case attempt E G fen0 ascii0 moves0 sys \<sigma> of
        Moved \<sigma>' \<Rightarrow> None
      | Failed \<sigma>' \<Rightarrow> afterFailures k E G fen0 ascii0 moves0 sys \<sigma>')"

section \<open>Notions for the statements\<close>

subsection \<open>Tokens\<close>

text \<open>A coordinate pair: a file letter, a rank digit, a hyphen, a file letter, a rank
  digit.\<close>

fun coord_token :: "string \<Rightarrow> bool" where
  "coord_token [a, b, h, c, d] =
     (a \<in> set files \<and> b \<in> set ranks \<and> h = CHR ''-'' \<and> c \<in> set files \<and> d \<in> set ranks)"
| "coord_token _ = False"

text \<open>The leftmost coordinate pair of a string.\<close>

fun first_coord :: "string \<Rightarrow> string option" where
  "first_coord [] = None"
| "first_coord (c # s) = (if coord_token (take 5 (c # s)) then Some (take 5 (c # s)) else first_coord s)"








subsection \<open>The words of an expression without anchors\<close>


fun lang :: "rx \<Rightarrow> string set" where
  "lang Eps = {[]}"
| "lang (Cls cs) = {[c] |c. c \<in> set cs}"
| "lang (Seq a b) = {u @ v |u v. u \<in> lang a \<and> v \<in> lang b}"
| "lang (Alt a b) = lang a \<union> lang b"
| "lang (Opt a) = lang a \<union> {[]}"
| "lang Bol = {[]}"
| "lang Eol = {[]}"

subsection \<open>Rounds of the loop\<close>

text \<open>The state that a round leaves when it has failed: the generator has been called
  once and the \<^verbatim>\<open>catch\<close> block has written one line.\<close>

definition afterCatch ::
  "'g generateRaw \<Rightarrow> string \<Rightarrow> string \<Rightarrow> ('p, 'g) chess_game \<Rightarrow> ('p, 'g) chess_game" where
  "afterCatch G prompt sys \<sigma> =
     \<sigma>\<lparr>generator := snd (G (generator \<sigma>) prompt sys),
       requests := requests \<sigma> @ [(prompt, sys)],
       console := console \<sigma> @ [ConsoleError]\<rparr>"

text \<open>Neither the game nor what the user sees differs between two states.\<close>

definition untouched :: "('p, 'g) chess_game \<Rightarrow> ('p, 'g) chess_game \<Rightarrow> bool" where
  "untouched \<sigma> \<sigma>' \<longleftrightarrow> game \<sigma>' = game \<sigma> \<and> color \<sigma>' = color \<sigma> \<and> applied \<sigma>' = applied \<sigma>
     \<and> board \<sigma>' = board \<sigma> \<and> redraws \<sigma>' = redraws \<sigma>
     \<and> opponentStatusText \<sigma>' = opponentStatusText \<sigma> \<and> userStatusText \<sigma>' = userStatusText \<sigma>
     \<and> statusUpdates \<sigma>' = statusUpdates \<sigma>"


fun outcomeState :: "'a outcome \<Rightarrow> 'a" where
  "outcomeState (Moved s) = s"
| "outcomeState (Failed s) = s"

fun isFailed :: "'a outcome \<Rightarrow> bool" where
  "isFailed (Moved s) = False"
| "isFailed (Failed s) = True"

section \<open>An engine and a generator for examples\<close>

text \<open>
  A position is the number of moves played. White moves at even positions; the three
  moves \<open>e4\<close>, \<open>Nf3\<close> and \<open>d4\<close>, and the pair from \<open>e2\<close> to \<open>e4\<close>, are legal until four
  moves have been played, and then the game is over.
\<close>

definition exampleMoves :: "nat \<Rightarrow> string list" where
  "exampleMoves p = (if 4 \<le> p then [] else [''e4'', ''Nf3'', ''d4''])"

fun exampleMove :: "nat \<Rightarrow> js_move \<Rightarrow> nat option" where
  "exampleMove p (San s) = (if s \<in> set (exampleMoves p) then Some (Suc p) else None)"
| "exampleMove p (FromTo a b) =
     (if p < 4 \<and> a = Some ''e2'' \<and> b = Some ''e4'' then Some (Suc p) else None)"
| "exampleMove p Undefined = None"

definition exampleEngine :: "nat engine" where
  "exampleEngine =
     \<lparr>turn = (\<lambda>p. if even p then W else B),
      isGameOver = (\<lambda>p. 4 \<le> p),
      isCheckmate = (\<lambda>p. False),
      inCheck = (\<lambda>p. False),
      isStalemate = (\<lambda>p. False),
      isDraw = (\<lambda>p. 4 \<le> p),
      isThreefoldRepetition = (\<lambda>p. False),
      fen = (\<lambda>p. ''position '' @ replicate p CHR ''+''),
      ascii = (\<lambda>p. ''board '' @ replicate p CHR ''+''),
      moves = exampleMoves,
      move = exampleMove\<rparr>"

text \<open>A generator that reads its replies from a list; \<open>None\<close> in the list, and the end
  of the list, is a call that throws.\<close>

definition scripted :: "(string option list) generateRaw" where
  "scripted g prompt sys = (case g of [] \<Rightarrow> (None, []) | r # rs \<Rightarrow> (r, rs))"

definition exampleGame :: "string option list \<Rightarrow> (nat, string option list) chess_game" where
  "exampleGame replies =
     \<lparr>game = 0, color = Black, board = ''position '',
      opponentStatusText = Thinking, userStatusText = NoUserStatus,
      generator = replies, requests = [], console = [], applied = [],
      enumerations = 0, redraws = 0, statusUpdates = 0\<rparr>"

section \<open>Trimming\<close>

lemma trim_head: "trim s \<noteq> [] \<Longrightarrow> \<not> is_ws (hd (trim s))"
proof -
  let ?t = "dropWhile is_ws s"
  assume ne: "trim s \<noteq> []"
  have split: "?t = trim s @ rev (takeWhile is_ws (rev ?t))"
    unfolding trim_def by (metis rev_append rev_rev_ident takeWhile_dropWhile_id)
  from ne split have "hd (trim s) = hd ?t" by (metis hd_append2)
  moreover from ne split have "?t \<noteq> []" by (metis append_is_Nil_conv)
  ultimately show ?thesis using hd_dropWhile [of is_ws s] by simp
qed

lemma trim_idem: "trim (trim s) = trim s"
proof -
  have a: "dropWhile is_ws (trim s) = trim s"
    by (cases "trim s = []") (simp_all add: dropWhile_eq_self_iff trim_head)
  have "trim (trim s) = rev (dropWhile is_ws (rev (trim s)))"
    by (subst trim_def) (simp only: a)
  also have "rev (trim s) = dropWhile is_ws (rev (dropWhile is_ws s))"
    by (simp add: trim_def)
  also have "rev (dropWhile is_ws (dropWhile is_ws (rev (dropWhile is_ws s)))) = trim s"
    by (simp add: trim_def)
  finally show ?thesis .
qed

lemma trim_decomp: "\<exists>l r. s = l @ trim s @ r \<and> (\<forall>c\<in>set l. is_ws c) \<and> (\<forall>c\<in>set r. is_ws c)"
proof -
  let ?t = "dropWhile is_ws s"
  have 1: "s = takeWhile is_ws s @ ?t" by simp
  have 2: "?t = trim s @ rev (takeWhile is_ws (rev ?t))"
    unfolding trim_def by (metis rev_append rev_rev_ident takeWhile_dropWhile_id)
  have 3: "\<forall>c\<in>set (takeWhile is_ws s). is_ws c" by (auto dest: set_takeWhileD)
  have 4: "\<forall>c\<in>set (rev (takeWhile is_ws (rev ?t))). is_ws c" by (auto dest: set_takeWhileD)
  from 1 2 have "s = takeWhile is_ws s @ trim s @ rev (takeWhile is_ws (rev ?t))" by metis
  with 3 4 show ?thesis by blast
qed


section \<open>The coordinate pair pattern\<close>

lemma coord_token_iff:
  "coord_token t \<longleftrightarrow> (\<exists>a b c d. t = [a, b, CHR ''-'', c, d] \<and> a \<in> set files \<and> b \<in> set ranks
      \<and> c \<in> set files \<and> d \<in> set ranks)"
  by (cases t rule: coord_token.cases) auto

lemma files_not_ws: "c \<in> set files \<Longrightarrow> \<not> is_ws c"
  by (auto simp: files_def is_ws_def)

lemma ranks_not_ws: "c \<in> set ranks \<Longrightarrow> \<not> is_ws c"
  by (auto simp: ranks_def is_ws_def)

lemma hyphen_not_ws: "\<not> is_ws CHR ''-''"
  by (simp add: is_ws_def)

lemma coord_token_no_ws: "coord_token t \<Longrightarrow> c \<in> set t \<Longrightarrow> \<not> is_ws c"
  by (auto simp: coord_token_iff files_not_ws ranks_not_ws hyphen_not_ws)

lemma coord_token_length: "coord_token t \<Longrightarrow> length t = 5"
  by (auto simp: coord_token_iff)

lemma rx_run_regular:
  "rx_run regularRx (i, s) = (if coord_token (take 5 s) then [(i + 5, drop 5 s)] else [])"
  by (auto simp: regularRx_def split: list.splits)

lemma rx_search_regular: "rx_search regularRx i s = first_coord s"
  by (induction s arbitrary: i) (simp_all add: rx_run_regular)

lemma match_regular: "match regularRx s = first_coord s"
  by (simp add: match_def rx_search_regular)


lemma first_coord_first:
  assumes "coord_token t" and "\<forall>k<length pre. \<not> coord_token (take 5 (drop k (pre @ t @ post)))"
  shows "first_coord (pre @ t @ post) = Some t"
  using assms
proof (induction pre)
  case Nil
  then obtain a b c d where "t = [a, b, CHR ''-'', c, d]" by (auto simp: coord_token_iff)
  with Nil show ?case by simp
next
  case (Cons x pre)
  from Cons.prems(2) have 0: "\<not> coord_token (take 5 (drop 0 ((x # pre) @ t @ post)))" by blast
  have "\<forall>k<length pre. \<not> coord_token (take 5 (drop k (pre @ t @ post)))"
  proof (intro allI impI)
    fix k assume "k < length pre"
    then have "Suc k < length (x # pre)" by simp
    with Cons.prems(2) have "\<not> coord_token (take 5 (drop (Suc k) ((x # pre) @ t @ post)))" by blast
    then show "\<not> coord_token (take 5 (drop k (pre @ t @ post)))" by simp
  qed
  with Cons.IH Cons.prems(1) have "first_coord (pre @ t @ post) = Some t" by blast
  with 0 show ?case by simp
qed

lemma first_coord_ws_front: "\<forall>c\<in>set l. is_ws c \<Longrightarrow> first_coord (l @ s) = first_coord s"
proof (induction l)
  case Nil
  show ?case by simp
next
  case (Cons x l)
  have "\<not> coord_token (take 5 (x # l @ s))"
  proof
    assume "coord_token (take 5 (x # l @ s))"
    then have "\<not> is_ws x" by (rule coord_token_no_ws) simp
    with Cons.prems show False by simp
  qed
  with Cons show ?case by simp
qed

lemma first_coord_ws_back:
  assumes "\<forall>c\<in>set r. is_ws c"
  shows "first_coord (s @ r) = first_coord s"
proof (induction s)
  case Nil
  show ?case using first_coord_ws_front [OF assms, of "[]"] by simp
next
  case (Cons x s)
  have "coord_token (take 5 (x # s @ r)) \<longleftrightarrow> coord_token (take 5 (x # s))"
  proof (cases "4 \<le> length s")
    case True
    then show ?thesis by simp
  next
    case False
    then have short: "length (x # s) < 5" by simp
    have "\<not> coord_token (take 5 (x # s))"
      using short coord_token_length [of "take 5 (x # s)"] by auto
    moreover have "\<not> coord_token (take 5 (x # s @ r))"
    proof
      assume tok: "coord_token (take 5 (x # s @ r))"
      then have len: "length (take 5 (x # s @ r)) = 5" by (rule coord_token_length)
      have eq: "take 5 (x # s @ r) = (x # s) @ take (5 - length (x # s)) r"
        using short by simp
      from len eq short have "take (5 - length (x # s)) r \<noteq> []" by auto
      then obtain y where y: "y \<in> set (take (5 - length (x # s)) r)"
        by (meson last_in_set)
      then have "y \<in> set r" by (rule in_set_takeD)
      with assms have "is_ws y" by blast
      moreover from y eq have "y \<in> set (take 5 (x # s @ r))" by simp
      ultimately show False using coord_token_no_ws [OF tok] by blast
    qed
    ultimately show ?thesis by simp
  qed
  moreover have "take 5 (x # s @ r) = take 5 (x # s)" if "coord_token (take 5 (x # s))"
  proof -
    from that have "length (take 5 (x # s)) = 5" by (rule coord_token_length)
    then have "4 \<le> length s" by simp
    then show ?thesis by simp
  qed
  ultimately show ?case using Cons by auto
qed

lemma first_coord_trim: "first_coord (trim s) = first_coord s"
proof -
  obtain l r where s: "s = l @ trim s @ r" and l: "\<forall>c\<in>set l. is_ws c" and r: "\<forall>c\<in>set r. is_ws c"
    using trim_decomp by blast
  have "first_coord s = first_coord (l @ trim s @ r)" using s by simp
  also have "\<dots> = first_coord (trim s @ r)" by (rule first_coord_ws_front [OF l])
  also have "\<dots> = first_coord (trim s)" by (rule first_coord_ws_back [OF r])
  finally show ?thesis by simp
qed

lemma files_not_hyphen: "c \<in> set files \<Longrightarrow> c \<noteq> CHR ''-''"
  by (auto simp: files_def)

lemma ranks_not_hyphen: "c \<in> set ranks \<Longrightarrow> c \<noteq> CHR ''-''"
  by (auto simp: ranks_def)

lemma split_coord_token: "coord_token t \<Longrightarrow> split CHR ''-'' t = [take 2 t, drop 3 t]"
  by (auto simp: coord_token_iff files_not_hyphen ranks_not_hyphen)


section \<open>The algebraic notation pattern\<close>


lemma in_lang_Seq: "s \<in> lang (Seq a b) \<longleftrightarrow> (\<exists>u v. s = u @ v \<and> u \<in> lang a \<and> v \<in> lang b)"
  by auto


























section \<open>The scan of the legal moves\<close>





section \<open>The retry loop\<close>

lemma attempt_Failed:
  "attempt E G fen0 ascii0 moves0 sys \<sigma> = Failed \<sigma>'
   \<Longrightarrow> \<sigma>' = afterCatch G (positionPrompt fen0 ascii0 moves0) sys \<sigma>"
  by (auto simp: attempt_def caught_def afterCatch_def Let_def
      split: prod.splits option.splits if_splits)

lemma attempt_Failed_iff:
  "(\<exists>\<sigma>'. attempt E G fen0 ascii0 moves0 sys \<sigma> = Failed \<sigma>') \<longleftrightarrow>
     (case fst (G (generator \<sigma>) (positionPrompt fen0 ascii0 moves0) sys) of
        None \<Rightarrow> True
      | Some text \<Rightarrow> falsy (parseMove moves0 text)
          \<or> move E (game \<sigma>) (moveArgument (the (parseMove moves0 text))) = None)"
  by (auto simp: attempt_def caught_def gameMove_def Let_def
      split: prod.splits option.splits if_splits)

lemma attempt_Moved:
  assumes "attempt E G fen0 ascii0 moves0 sys \<sigma> = Moved \<sigma>'"
  shows "\<exists>text m p. G (generator \<sigma>) (positionPrompt fen0 ascii0 moves0) sys = (Some text, generator \<sigma>')
     \<and> \<not> falsy (parseMove moves0 text) \<and> m = moveArgument (the (parseMove moves0 text))
     \<and> move E (game \<sigma>) m = Some p \<and> game \<sigma>' = p \<and> applied \<sigma>' = applied \<sigma> @ [m]
     \<and> requests \<sigma>' = requests \<sigma> @ [(positionPrompt fen0 ascii0 moves0, sys)]
     \<and> console \<sigma>' = console \<sigma> \<and> enumerations \<sigma>' = enumerations \<sigma> \<and> color \<sigma>' = color \<sigma>
     \<and> board \<sigma>' = fen E p \<and> redraws \<sigma>' = Suc (redraws \<sigma>)
     \<and> statusUpdates \<sigma>' = Suc (statusUpdates \<sigma>)"
  using assms
  by (auto simp: attempt_def caught_def gameMove_def updateStatus_def boardPosition_def Let_def
      split: prod.splits option.splits if_splits)

lemma afterCatch_untouched: "untouched \<sigma> (afterCatch G prompt sys \<sigma>)"
  by (simp add: untouched_def afterCatch_def)

lemma untouched_trans: "untouched a b \<Longrightarrow> untouched b c \<Longrightarrow> untouched a c"
  by (simp add: untouched_def)

lemma untouched_refl: "untouched a a"
  by (simp add: untouched_def)

lemma attempts_Failed:
  "attempts n E G fen0 ascii0 moves0 sys \<sigma> = Failed \<sigma>'
   \<Longrightarrow> untouched \<sigma> \<sigma>' \<and> enumerations \<sigma>' = enumerations \<sigma>
       \<and> length (requests \<sigma>') = length (requests \<sigma>) + n
       \<and> console \<sigma>' = console \<sigma> @ replicate n ConsoleError"
proof (induction n arbitrary: \<sigma>)
  case 0
  then show ?case by (simp add: untouched_refl)
next
  case (Suc n)
  from Suc.prems obtain \<sigma>1 where 1: "attempt E G fen0 ascii0 moves0 sys \<sigma> = Failed \<sigma>1"
    and 2: "attempts n E G fen0 ascii0 moves0 sys \<sigma>1 = Failed \<sigma>'"
    by (auto split: outcome.splits)
  from attempt_Failed [OF 1] have s1: "\<sigma>1 = afterCatch G (positionPrompt fen0 ascii0 moves0) sys \<sigma>" .
  have u: "untouched \<sigma> \<sigma>1" unfolding s1 by (rule afterCatch_untouched)
  from Suc.IH [OF 2] u show ?case
    by (auto simp: s1 afterCatch_def untouched_def replicate_append_same)
qed

lemma attempts_Moved:
  "attempts n E G fen0 ascii0 moves0 sys \<sigma> = Moved \<sigma>'
   \<Longrightarrow> \<exists>k<n. length (requests \<sigma>') = length (requests \<sigma>) + Suc k
         \<and> console \<sigma>' = console \<sigma> @ replicate k ConsoleError
         \<and> length (applied \<sigma>') = Suc (length (applied \<sigma>))
         \<and> enumerations \<sigma>' = enumerations \<sigma>"
proof (induction n arbitrary: \<sigma>)
  case 0
  then show ?case by simp
next
  case (Suc n)
  show ?case
  proof (cases "attempt E G fen0 ascii0 moves0 sys \<sigma>")
    case (Moved \<sigma>1)
    with Suc.prems have "\<sigma>1 = \<sigma>'" by simp
    with attempt_Moved [OF Moved] have
      "length (requests \<sigma>') = length (requests \<sigma>) + Suc 0
         \<and> console \<sigma>' = console \<sigma> @ replicate 0 ConsoleError
         \<and> length (applied \<sigma>') = Suc (length (applied \<sigma>))
         \<and> enumerations \<sigma>' = enumerations \<sigma>" by auto
    then show ?thesis by blast
  next
    case (Failed \<sigma>1)
    with Suc.prems have 2: "attempts n E G fen0 ascii0 moves0 sys \<sigma>1 = Moved \<sigma>'" by simp
    from attempt_Failed [OF Failed]
    have s1: "\<sigma>1 = afterCatch G (positionPrompt fen0 ascii0 moves0) sys \<sigma>" .
    from Suc.IH [OF 2] obtain k where k: "k < n"
      "length (requests \<sigma>') = length (requests \<sigma>1) + Suc k"
      "console \<sigma>' = console \<sigma>1 @ replicate k ConsoleError"
      "length (applied \<sigma>') = Suc (length (applied \<sigma>1))"
      "enumerations \<sigma>' = enumerations \<sigma>1" by blast
    then have "Suc k < Suc n \<and> length (requests \<sigma>') = length (requests \<sigma>) + Suc (Suc k)
         \<and> console \<sigma>' = console \<sigma> @ replicate (Suc k) ConsoleError
         \<and> length (applied \<sigma>') = Suc (length (applied \<sigma>))
         \<and> enumerations \<sigma>' = enumerations \<sigma>"
      by (simp add: s1 afterCatch_def)
    then show ?thesis by blast
  qed
qed

lemma randomMove_requests: "requests (finalState (randomMove E rnd ms \<sigma>)) = requests \<sigma>"
  by (simp add: randomMove_def finalState_def gameMove_def updateStatus_def boardPosition_def Let_def
      split: option.splits)

lemma randomMove_enumerations: "enumerations (finalState (randomMove E rnd ms \<sigma>)) = enumerations \<sigma>"
  by (simp add: randomMove_def finalState_def gameMove_def updateStatus_def boardPosition_def Let_def
      split: option.splits)

lemma tryMoveOpponent_unfold:
  assumes "isOpponentTurn E \<sigma>" and "\<not> isGameOver E (game \<sigma>)"
  shows "tryMoveOpponent E G rnd \<sigma> =
     (case attempts maxRetries E G (fen E (game \<sigma>)) (ascii E (game \<sigma>)) (moves E (game \<sigma>))
             (systemPrompt \<sigma>) (\<sigma>\<lparr>enumerations := Suc (enumerations \<sigma>)\<rparr>) of
        Moved \<sigma>' \<Rightarrow> Inr \<sigma>'
      | Failed \<sigma>' \<Rightarrow> randomMove E rnd (moves E (game \<sigma>)) \<sigma>')"
  using assms by (simp add: tryMoveOpponent_def Let_def)

lemma isFailed_eq: "isFailed r \<Longrightarrow> r = Failed (outcomeState r)"
  by (cases r) simp_all

lemma notFailed_eq: "\<not> isFailed r \<Longrightarrow> r = Moved (outcomeState r)"
  by (cases r) simp_all



lemma afterFailures_untouched:
  "afterFailures k E G fen0 ascii0 moves0 sys \<sigma> = Some \<sigma>k \<Longrightarrow> untouched \<sigma> \<sigma>k"
proof (induction k arbitrary: \<sigma>)
  case 0
  then show ?case by (simp add: untouched_refl)
next
  case (Suc k)
  from Suc.prems obtain \<sigma>1 where 1: "attempt E G fen0 ascii0 moves0 sys \<sigma> = Failed \<sigma>1"
    and 2: "afterFailures k E G fen0 ascii0 moves0 sys \<sigma>1 = Some \<sigma>k"
    by (auto split: outcome.splits)
  from attempt_Failed [OF 1] have "untouched \<sigma> \<sigma>1" by (simp add: afterCatch_untouched)
  with Suc.IH [OF 2] show ?case by (blast intro: untouched_trans)
qed

lemma systemPrompt_color: "color \<sigma>' = color \<sigma> \<Longrightarrow> systemPrompt \<sigma>' = systemPrompt \<sigma>"
  by (simp add: systemPrompt_def getOpponentColor_def)

section \<open>The claims about parseMove\<close>

text \<open>
  Claim C1. When a coordinate pair occurs anywhere in the reply, \<^verbatim>\<open>parseMove\<close> returns
  the array of the two squares of the leftmost pair, whatever text surrounds it and
  whatever the list of legal moves is.
\<close>

theorem parseMove_coordinate_pair:
  assumes "coord_token (take 5 (drop k reply))"
  shows "\<exists>j\<le>k. coord_token (take 5 (drop j reply))
           \<and> (\<forall>i<j. \<not> coord_token (take 5 (drop i reply)))
           \<and> parseMove L reply
               = Some (MoveArray [take 2 (drop j reply), take 2 (drop (j + 3) reply)])"
proof -
  define j where "j = (LEAST i. coord_token (take 5 (drop i reply)))"
  have tok: "coord_token (take 5 (drop j reply))"
    unfolding j_def using assms by (rule LeastI)
  have le: "j \<le> k" unfolding j_def using assms by (rule Least_le)
  have first: "\<forall>i<j. \<not> coord_token (take 5 (drop i reply))"
    unfolding j_def using not_less_Least by blast
  have len: "length (take 5 (drop j reply)) = 5" using tok by (rule coord_token_length)
  have reply: "reply = take j reply @ take 5 (drop j reply) @ drop (j + 5) reply"
    by (metis add.commute append_take_drop_id drop_drop)
  have jlen: "length (take j reply) = j" using len by simp
  have "first_coord (take j reply @ take 5 (drop j reply) @ drop (j + 5) reply)
          = Some (take 5 (drop j reply))"
    using tok first reply jlen by (intro first_coord_first) simp_all
  then have "match regularRx (trim reply) = Some (take 5 (drop j reply))"
    using reply by (simp add: match_regular first_coord_trim)
  then have "parseMove L reply
      = Some (MoveArray [take 2 (take 5 (drop j reply)), drop 3 (take 5 (drop j reply))])"
    using tok by (simp add: parseMove_def split_coord_token)
  moreover have "drop 3 (take 5 (drop j reply)) = take 2 (drop (j + 3) reply)"
    by (simp add: drop_take add.commute)
  ultimately show ?thesis using tok le first by auto
qed

text \<open>
  The second pair of the reply is at position 21; the first one, at position 7, is
  returned.
\<close>

theorem parseMove_coordinate_pair_witness:
  "coord_token (take 5 (drop 21 ''I play e2-e4 and not g1-f3 of course''))
   \<and> parseMove [''e4'', ''Nf3'', ''d4''] ''I play e2-e4 and not g1-f3 of course''
       = Some (MoveArray [''e2'', ''e4''])"
proof -
  have h: "coord_token (take 5 (drop 21 ''I play e2-e4 and not g1-f3 of course''))"
    by code_simp
  from parseMove_coordinate_pair [OF h, of "[''e4'', ''Nf3'', ''d4'']"]
  obtain j where j: "j \<le> 21" "coord_token (take 5 (drop j ''I play e2-e4 and not g1-f3 of course''))"
    "\<forall>i<j. \<not> coord_token (take 5 (drop i ''I play e2-e4 and not g1-f3 of course''))"
    "parseMove [''e4'', ''Nf3'', ''d4''] ''I play e2-e4 and not g1-f3 of course''
       = Some (MoveArray [take 2 (drop j ''I play e2-e4 and not g1-f3 of course''),
                          take 2 (drop (j + 3) ''I play e2-e4 and not g1-f3 of course'')])"
    by blast
  have seven: "coord_token (take 5 (drop 7 ''I play e2-e4 and not g1-f3 of course''))"
    by code_simp
  have "\<not> j > 7" using j(3) seven by blast
  moreover have "list_all (\<lambda>i. \<not> coord_token (take 5 (drop i ''I play e2-e4 and not g1-f3 of course''))) [0..<7]"
    by code_simp
  then have "\<forall>i<7. \<not> coord_token (take 5 (drop i ''I play e2-e4 and not g1-f3 of course''))"
    by (simp add: list_all_iff)
  with j(2) have "\<not> j < 7" by blast
  ultimately have "j = 7" by simp
  with j(4) h show ?thesis by simp
qed










text \<open>
  Claim C10. Trimming the reply before the call does not change what \<^verbatim>\<open>parseMove\<close>
  returns.
\<close>

theorem parseMove_trim: "parseMove L (trim reply) = parseMove L reply"
  by (simp add: parseMove_def trim_idem)

section \<open>The claims about tryMoveOpponent\<close>



text \<open>
  Claim C5. One call of \<^verbatim>\<open>tryMoveOpponent\<close> makes at most three requests to the text
  generator. A generator that throws, a reply without a move and a move that the engine
  rejects end the round in the same way: one request made, one line on the console, the
  next round follows. A loop that ends with a move has made as many requests as rounds
  have failed, and one more.
\<close>

theorem bounded_retries:
  "length (requests (finalState (tryMoveOpponent E G rnd \<sigma>))) \<le> length (requests \<sigma>) + 3
   \<and> ((case fst (G (generator \<sigma>) (positionPrompt fenText asciiText legal) sys) of
          None \<Rightarrow> True
        | Some text \<Rightarrow> falsy (parseMove legal text)
            \<or> move E (game \<sigma>) (moveArgument (the (parseMove legal text))) = None)
       \<longrightarrow> attempt E G fenText asciiText legal sys \<sigma>
             = Failed (afterCatch G (positionPrompt fenText asciiText legal) sys \<sigma>)
           \<and> attempts (Suc n) E G fenText asciiText legal sys \<sigma>
             = attempts n E G fenText asciiText legal sys
                 (afterCatch G (positionPrompt fenText asciiText legal) sys \<sigma>))
   \<and> (attempts n E G fenText asciiText legal sys \<sigma> = Moved \<sigma>'
       \<longrightarrow> (\<exists>k<n. length (requests \<sigma>') = length (requests \<sigma>) + Suc k
              \<and> console \<sigma>' = console \<sigma> @ replicate k ConsoleError
              \<and> length (applied \<sigma>') = Suc (length (applied \<sigma>))))
   \<and> (isOpponentTurn E \<sigma> \<and> \<not> isGameOver E (game \<sigma>)
        \<and> attempts maxRetries E G (fen E (game \<sigma>)) (ascii E (game \<sigma>)) (moves E (game \<sigma>))
              (systemPrompt \<sigma>) (\<sigma>\<lparr>enumerations := Suc (enumerations \<sigma>)\<rparr>) = Moved \<sigma>''
       \<longrightarrow> tryMoveOpponent E G rnd \<sigma> = Inr \<sigma>'')"
proof (intro conjI impI)
  show "length (requests (finalState (tryMoveOpponent E G rnd \<sigma>))) \<le> length (requests \<sigma>) + 3"
  proof (cases "isOpponentTurn E \<sigma> \<and> \<not> isGameOver E (game \<sigma>)")
    case False
    then show ?thesis by (auto simp: tryMoveOpponent_def finalState_def)
  next
    case True
    let ?\<sigma>0 = "\<sigma>\<lparr>enumerations := Suc (enumerations \<sigma>)\<rparr>"
    let ?a = "attempts maxRetries E G (fen E (game \<sigma>)) (ascii E (game \<sigma>)) (moves E (game \<sigma>))
             (systemPrompt \<sigma>) ?\<sigma>0"
    show ?thesis
    proof (cases ?a)
      case (Moved \<sigma>1)
      from attempts_Moved [OF Moved] show ?thesis
        using True Moved by (auto simp: tryMoveOpponent_unfold finalState_def maxRetries_def)
    next
      case (Failed \<sigma>1)
      from attempts_Failed [OF Failed] show ?thesis
        using True Failed by (simp add: tryMoveOpponent_unfold randomMove_requests maxRetries_def)
    qed
  qed
next
  assume a: "case fst (G (generator \<sigma>) (positionPrompt fenText asciiText legal) sys) of
          None \<Rightarrow> True
        | Some text \<Rightarrow> falsy (parseMove legal text)
            \<or> move E (game \<sigma>) (moveArgument (the (parseMove legal text))) = None"
  then obtain \<sigma>1 where "attempt E G fenText asciiText legal sys \<sigma> = Failed \<sigma>1"
    using attempt_Failed_iff [of E G fenText asciiText legal sys \<sigma>] by blast
  with attempt_Failed [OF this]
  have f: "attempt E G fenText asciiText legal sys \<sigma>
          = Failed (afterCatch G (positionPrompt fenText asciiText legal) sys \<sigma>)" by simp
  from f show "attempt E G fenText asciiText legal sys \<sigma>
          = Failed (afterCatch G (positionPrompt fenText asciiText legal) sys \<sigma>)" .
  from f show "attempts (Suc n) E G fenText asciiText legal sys \<sigma>
          = attempts n E G fenText asciiText legal sys
              (afterCatch G (positionPrompt fenText asciiText legal) sys \<sigma>)"
    by simp
next
  assume "attempts n E G fenText asciiText legal sys \<sigma> = Moved \<sigma>'"
  from attempts_Moved [OF this]
  show "\<exists>k<n. length (requests \<sigma>') = length (requests \<sigma>) + Suc k
              \<and> console \<sigma>' = console \<sigma> @ replicate k ConsoleError
              \<and> length (applied \<sigma>') = Suc (length (applied \<sigma>))" by blast
next
  assume "isOpponentTurn E \<sigma> \<and> \<not> isGameOver E (game \<sigma>)
        \<and> attempts maxRetries E G (fen E (game \<sigma>)) (ascii E (game \<sigma>)) (moves E (game \<sigma>))
              (systemPrompt \<sigma>) (\<sigma>\<lparr>enumerations := Suc (enumerations \<sigma>)\<rparr>) = Moved \<sigma>''"
  then show "tryMoveOpponent E G rnd \<sigma> = Inr \<sigma>''" by (simp add: tryMoveOpponent_unfold)
qed

theorem bounded_retries_witness:
  "length (requests (finalState (tryMoveOpponent exampleEngine scripted (1/2)
       (exampleGame [Some ''garbage'', None, Some ''Qh5''])))) \<le> 0 + 3
   \<and> attempt exampleEngine scripted ''f'' ''a'' [''e4''] ''s'' (exampleGame [None])
       = Failed (afterCatch scripted (positionPrompt ''f'' ''a'' [''e4'']) ''s'' (exampleGame [None]))
   \<and> (\<exists>k<3. length (requests (outcomeState (attempts 3 exampleEngine scripted ''f'' ''a'' [''e4''] ''s''
                   (exampleGame [Some ''garbage'', Some ''I play e4'']))))
              = 0 + Suc k)
   \<and> (\<exists>s. tryMoveOpponent exampleEngine scripted (1/2) (exampleGame [Some ''garbage'', Some ''I play e4''])
            = Inr s \<and> applied s = [San ''e4''])"
proof -
  let ?\<sigma> = "exampleGame [Some ''garbage'', Some ''I play e4'']"
  let ?a = "attempts maxRetries exampleEngine scripted (fen exampleEngine (game ?\<sigma>))
           (ascii exampleEngine (game ?\<sigma>)) (moves exampleEngine (game ?\<sigma>)) (systemPrompt ?\<sigma>)
           (?\<sigma>\<lparr>enumerations := Suc (enumerations ?\<sigma>)\<rparr>)"
  have t: "isOpponentTurn exampleEngine ?\<sigma>"
    by (simp add: isOpponentTurn_def exampleEngine_def exampleGame_def)
  have o: "\<not> isGameOver exampleEngine (game ?\<sigma>)"
    by (simp add: exampleEngine_def exampleGame_def)
  have "\<not> isFailed ?a" by code_simp
  then have a: "?a = Moved (outcomeState ?a)" by (rule notFailed_eq)
  have ap: "applied (outcomeState ?a) = [San ''e4'']" by code_simp
  from bounded_retries [where E = exampleEngine and G = scripted and rnd = "1/2"
      and \<sigma> = ?\<sigma> and \<sigma>'' = "outcomeState ?a"] t o a
  have "tryMoveOpponent exampleEngine scripted (1/2) ?\<sigma> = Inr (outcomeState ?a)" by blast
  with ap have 4: "\<exists>s. tryMoveOpponent exampleEngine scripted (1/2) ?\<sigma> = Inr s \<and> applied s = [San ''e4'']"
    by blast
  have c: "case fst (scripted (generator (exampleGame [None])) (positionPrompt ''f'' ''a'' [''e4'']) ''s'') of
          None \<Rightarrow> True
        | Some text \<Rightarrow> falsy (parseMove [''e4''] text)
            \<or> move exampleEngine (game (exampleGame [None])) (moveArgument (the (parseMove [''e4''] text))) = None"
    by (simp add: scripted_def exampleGame_def)
  have "\<not> isFailed (attempts 3 exampleEngine scripted ''f'' ''a'' [''e4''] ''s''
                   (exampleGame [Some ''garbage'', Some ''I play e4'']))"
    by code_simp
  then have m: "attempts 3 exampleEngine scripted ''f'' ''a'' [''e4''] ''s''
                   (exampleGame [Some ''garbage'', Some ''I play e4''])
      = Moved (outcomeState (attempts 3 exampleEngine scripted ''f'' ''a'' [''e4''] ''s''
                   (exampleGame [Some ''garbage'', Some ''I play e4''])))"
    by (rule notFailed_eq)
  have r0: "requests (exampleGame g) = []" for g :: "string option list"
    by (simp add: exampleGame_def)
  from bounded_retries [where E = exampleEngine and G = scripted and rnd = "1/2"
      and \<sigma> = "exampleGame [Some ''garbage'', None, Some ''Qh5'']" and fenText = "''f''" and asciiText = "''a''"
      and legal = "[''e4'']" and sys = "''s''" and n = 3]
  have 1: "length (requests (finalState (tryMoveOpponent exampleEngine scripted (1/2)
       (exampleGame [Some ''garbage'', None, Some ''Qh5''])))) \<le> 0 + 3"
    by (simp add: r0)
  from bounded_retries [where E = exampleEngine and G = scripted and rnd = "1/2"
      and \<sigma> = "exampleGame [None]" and fenText = "''f''" and asciiText = "''a''"
      and legal = "[''e4'']" and sys = "''s''" and n = 3] c
  have 2: "attempt exampleEngine scripted ''f'' ''a'' [''e4''] ''s'' (exampleGame [None])
       = Failed (afterCatch scripted (positionPrompt ''f'' ''a'' [''e4'']) ''s'' (exampleGame [None]))"
    by blast
  from bounded_retries [where E = exampleEngine and G = scripted and rnd = "1/2"
      and \<sigma> = "exampleGame [Some ''garbage'', Some ''I play e4'']" and fenText = "''f''" and asciiText = "''a''"
      and legal = "[''e4'']" and sys = "''s''" and n = 3] m
  have 3: "\<exists>k<3. length (requests (outcomeState (attempts 3 exampleEngine scripted ''f'' ''a'' [''e4''] ''s''
                   (exampleGame [Some ''garbage'', Some ''I play e4'']))))
              = 0 + Suc k"
    by (auto simp: r0)
  from 1 2 3 4 show ?thesis by blast
qed

text \<open>
  Claim C6. When it is not the turn of the opponent, or the game is over,
  \<^verbatim>\<open>tryMoveOpponent\<close> returns the state it was given: no request, no move, nothing
  drawn.
\<close>

theorem precondition_noop:
  assumes "\<not> isOpponentTurn E \<sigma> \<or> isGameOver E (game \<sigma>)"
  shows "tryMoveOpponent E G rnd \<sigma> = Inr \<sigma>"
  using assms by (auto simp: tryMoveOpponent_def)

theorem precondition_noop_witness:
  "tryMoveOpponent exampleEngine scripted 0 ((exampleGame [Some ''e4''])\<lparr>color := White\<rparr>)
     = Inr ((exampleGame [Some ''e4''])\<lparr>color := White\<rparr>)
   \<and> tryMoveOpponent exampleEngine scripted 0 ((exampleGame [Some ''e4''])\<lparr>game := 4\<rparr>)
     = Inr ((exampleGame [Some ''e4''])\<lparr>game := 4\<rparr>)"
proof -
  have 1: "\<not> isOpponentTurn exampleEngine ((exampleGame [Some ''e4''])\<lparr>color := White\<rparr>)
      \<or> isGameOver exampleEngine (game ((exampleGame [Some ''e4''])\<lparr>color := White\<rparr>))"
    by (simp add: isOpponentTurn_def exampleEngine_def exampleGame_def)
  have 2: "\<not> isOpponentTurn exampleEngine ((exampleGame [Some ''e4''])\<lparr>game := 4\<rparr>)
      \<or> isGameOver exampleEngine (game ((exampleGame [Some ''e4''])\<lparr>game := 4\<rparr>))"
    by (simp add: isOpponentTurn_def exampleEngine_def exampleGame_def)
  from precondition_noop [OF 1] precondition_noop [OF 2] show ?thesis by simp
qed

text \<open>
  Claim C7, as amended. \<^verbatim>\<open>tryMoveOpponent\<close> asks the engine for the legal moves once,
  before the loop. A round starts in a state in which the game is the one of the start, so
  that the round run with the position, the board and the list taken before the loop is
  the round run with those of its own state.
\<close>

theorem moves_enumerated_once:
  assumes "isOpponentTurn E \<sigma>" and "\<not> isGameOver E (game \<sigma>)"
    and "afterFailures k E G (fen E (game \<sigma>)) (ascii E (game \<sigma>)) (moves E (game \<sigma>))
           (systemPrompt \<sigma>) (\<sigma>\<lparr>enumerations := Suc (enumerations \<sigma>)\<rparr>) = Some \<sigma>k"
  shows "enumerations (finalState (tryMoveOpponent E G rnd \<sigma>)) = Suc (enumerations \<sigma>)
     \<and> game \<sigma>k = game \<sigma>
     \<and> attempt E G (fen E (game \<sigma>)) (ascii E (game \<sigma>)) (moves E (game \<sigma>)) (systemPrompt \<sigma>) \<sigma>k
         = attempt E G (fen E (game \<sigma>k)) (ascii E (game \<sigma>k)) (moves E (game \<sigma>k))
             (systemPrompt \<sigma>k) \<sigma>k"
proof -
  let ?\<sigma>0 = "\<sigma>\<lparr>enumerations := Suc (enumerations \<sigma>)\<rparr>"
  let ?a = "attempts maxRetries E G (fen E (game \<sigma>)) (ascii E (game \<sigma>)) (moves E (game \<sigma>))
             (systemPrompt \<sigma>) ?\<sigma>0"
  have e: "enumerations (finalState (tryMoveOpponent E G rnd \<sigma>)) = Suc (enumerations \<sigma>)"
  proof (cases ?a)
    case (Moved \<sigma>1)
    from attempts_Moved [OF Moved] show ?thesis
      using assms(1,2) Moved by (auto simp: tryMoveOpponent_unfold finalState_def)
  next
    case (Failed \<sigma>1)
    from attempts_Failed [OF Failed] show ?thesis
      using assms(1,2) Failed by (simp add: tryMoveOpponent_unfold randomMove_enumerations)
  qed
  from afterFailures_untouched [OF assms(3)] have "game \<sigma>k = game \<sigma>" "color \<sigma>k = color \<sigma>"
    by (simp_all add: untouched_def)
  moreover from this(2) have "systemPrompt \<sigma>k = systemPrompt \<sigma>" by (rule systemPrompt_color)
  ultimately show ?thesis using e by simp
qed

theorem moves_enumerated_once_witness:
  "enumerations (finalState (tryMoveOpponent exampleEngine scripted (1/2)
       (exampleGame [Some ''garbage'', None, Some ''Qh5''])))
     = Suc (enumerations (exampleGame [Some ''garbage'', None, Some ''Qh5'']))
   \<and> (\<exists>\<sigma>k. afterFailures 2 exampleEngine scripted
           (fen exampleEngine (game (exampleGame [Some ''garbage'', None, Some ''Qh5''])))
           (ascii exampleEngine (game (exampleGame [Some ''garbage'', None, Some ''Qh5''])))
           (moves exampleEngine (game (exampleGame [Some ''garbage'', None, Some ''Qh5''])))
           (systemPrompt (exampleGame [Some ''garbage'', None, Some ''Qh5'']))
           ((exampleGame [Some ''garbage'', None, Some ''Qh5''])\<lparr>enumerations := Suc (enumerations (exampleGame [Some ''garbage'', None, Some ''Qh5'']))\<rparr>)
          = Some \<sigma>k
        \<and> game \<sigma>k = game (exampleGame [Some ''garbage'', None, Some ''Qh5'']))"
proof -
  let ?\<sigma> = "exampleGame [Some ''garbage'', None, Some ''Qh5'']"
  let ?a = "afterFailures 2 exampleEngine scripted (fen exampleEngine (game ?\<sigma>))
           (ascii exampleEngine (game ?\<sigma>)) (moves exampleEngine (game ?\<sigma>)) (systemPrompt ?\<sigma>)
           (?\<sigma>\<lparr>enumerations := Suc (enumerations ?\<sigma>)\<rparr>)"
  have 1: "isOpponentTurn exampleEngine ?\<sigma>"
    by (simp add: isOpponentTurn_def exampleEngine_def exampleGame_def)
  have 2: "\<not> isGameOver exampleEngine (game ?\<sigma>)"
    by (simp add: exampleEngine_def exampleGame_def)
  have "?a \<noteq> None" by code_simp
  then have 3: "?a = Some (the ?a)" by simp
  from moves_enumerated_once [OF 1 2 3, of "1/2"] 3
  show ?thesis by blast
qed

text \<open>
  Claim C7 as it was stated fails: three rounds, three requests, and the list of legal
  moves has been asked for once.
\<close>

theorem moves_enumerated_once_counterexample:
  "length (requests (finalState (tryMoveOpponent exampleEngine scripted (1/2)
       (exampleGame [Some ''garbage'', None, Some ''Qh5''])))) = 3
   \<and> enumerations (exampleGame [Some ''garbage'', None, Some ''Qh5'']) = 0
   \<and> enumerations (finalState (tryMoveOpponent exampleEngine scripted (1/2)
       (exampleGame [Some ''garbage'', None, Some ''Qh5'']))) = 1"
  by code_simp

text \<open>
  Claim C9. A round that fails, and a loop of which every round fails, leave the game, the
  list of applied moves, the board and the two status texts as they were, and redraw
  nothing.
\<close>

theorem failed_attempt_atomic:
  "(attempt E G fenText asciiText legal sys \<sigma> = Failed \<sigma>' \<longrightarrow> untouched \<sigma> \<sigma>')
   \<and> (attempts n E G fenText asciiText legal sys \<sigma> = Failed \<sigma>'' \<longrightarrow> untouched \<sigma> \<sigma>'')"
  using attempt_Failed [of E G fenText asciiText legal sys \<sigma> \<sigma>']
    attempts_Failed [of n E G fenText asciiText legal sys \<sigma> \<sigma>'']
  by (auto simp: afterCatch_untouched)

theorem failed_attempt_atomic_witness:
  "attempt exampleEngine scripted ''f'' ''a'' [''e4''] ''s'' (exampleGame [Some ''Qh5''])
     = Failed (outcomeState (attempt exampleEngine scripted ''f'' ''a'' [''e4''] ''s'' (exampleGame [Some ''Qh5''])))
   \<and> untouched (exampleGame [Some ''Qh5''])
        (outcomeState (attempt exampleEngine scripted ''f'' ''a'' [''e4''] ''s'' (exampleGame [Some ''Qh5''])))
   \<and> attempts 3 exampleEngine scripted ''f'' ''a'' [''e4''] ''s'' (exampleGame [Some ''Qh5''])
     = Failed (outcomeState (attempts 3 exampleEngine scripted ''f'' ''a'' [''e4''] ''s'' (exampleGame [Some ''Qh5''])))
   \<and> untouched (exampleGame [Some ''Qh5''])
        (outcomeState (attempts 3 exampleEngine scripted ''f'' ''a'' [''e4''] ''s'' (exampleGame [Some ''Qh5''])))"
proof -
  have "isFailed (attempt exampleEngine scripted ''f'' ''a'' [''e4''] ''s'' (exampleGame [Some ''Qh5'']))"
    by code_simp
  then have 1: "attempt exampleEngine scripted ''f'' ''a'' [''e4''] ''s'' (exampleGame [Some ''Qh5''])
     = Failed (outcomeState (attempt exampleEngine scripted ''f'' ''a'' [''e4''] ''s'' (exampleGame [Some ''Qh5''])))"
    by (rule isFailed_eq)
  have "isFailed (attempts 3 exampleEngine scripted ''f'' ''a'' [''e4''] ''s'' (exampleGame [Some ''Qh5'']))"
    by code_simp
  then have 3: "attempts 3 exampleEngine scripted ''f'' ''a'' [''e4''] ''s'' (exampleGame [Some ''Qh5''])
     = Failed (outcomeState (attempts 3 exampleEngine scripted ''f'' ''a'' [''e4''] ''s'' (exampleGame [Some ''Qh5''])))"
    by (rule isFailed_eq)
  from failed_attempt_atomic [where E = exampleEngine and G = scripted and fenText = "''f''"
      and asciiText = "''a''" and legal = "[''e4'']" and sys = "''s''"
      and \<sigma> = "exampleGame [Some ''Qh5'']" and n = 3] 1 3
  show ?thesis by blast
qed

end
